theory Spec2Isabelle
  imports Complex_Main
begin

section \<open>Python values used by the recipe recommender\<close>

text \<open>
  Scores are Python floats; they are modelled as exact reals, so that the weighted sums
  below are the mathematical ones.  Strings are ASCII character lists.  A Python
  exception is a value of \<open>py_error\<close> on the left of a sum.
\<close>

datatype py_error = ZeroDivisionError | TypeError | ValueError

subsection \<open>Strings\<close>

text \<open>\<open>str.lower\<close> on ASCII letters; every other character is kept.\<close>

definition lower_char :: "char \<Rightarrow> char" where
  "lower_char c =
     (case map_of (zip ''ABCDEFGHIJKLMNOPQRSTUVWXYZ'' ''abcdefghijklmnopqrstuvwxyz'') c of
        Some d \<Rightarrow> d
      | None \<Rightarrow> c)"

definition lower :: "string \<Rightarrow> string" where
  "lower s = map lower_char s"

text \<open>The ASCII characters for which \<open>str.isspace\<close> holds.\<close>

definition is_space :: "char \<Rightarrow> bool" where
  "is_space c =
     (c \<in> set [CHR '' '', CHR 0x09, CHR 0x0A, CHR 0x0B, CHR 0x0C, CHR 0x0D,
                CHR 0x1C, CHR 0x1D, CHR 0x1E, CHR 0x1F])"

text \<open>\<open>s.startswith(p)\<close>.\<close>

definition startswith :: "string \<Rightarrow> string \<Rightarrow> bool" where
  "startswith s p = (take (length p) s = p)"

text \<open>\<open>p in s\<close> for two strings: \<open>p\<close> occurs in \<open>s\<close> as a contiguous block.\<close>

fun str_in :: "string \<Rightarrow> string \<Rightarrow> bool" where
  "str_in p [] = (p = [])"
| "str_in p (c # s) = (startswith (c # s) p \<or> str_in p s)"

text \<open>
  \<open>s.split()\<close> with no argument: the maximal runs of non-whitespace characters.
  The first argument is the word being read.
\<close>

fun split_acc :: "string \<Rightarrow> string \<Rightarrow> string list" where
  "split_acc w [] = (if w = [] then [] else [w])"
| "split_acc w (c # cs) =
     (if is_space c then (if w = [] then split_acc [] cs else w # split_acc [] cs)
      else split_acc (w @ [c]) cs)"

definition py_split :: "string \<Rightarrow> string list" where
  "py_split s = split_acc [] s"

subsection \<open>Dictionaries and lists\<close>

text \<open>
  A Python dict whose iteration order matters is an association list in insertion order.
  \<open>d[k] = v\<close> replaces the value of a key that is present and appends a new key.
\<close>

fun dict_set :: "('k \<times> 'v) list \<Rightarrow> 'k \<Rightarrow> 'v \<Rightarrow> ('k \<times> 'v) list" where
  "dict_set [] k v = [(k, v)]"
| "dict_set ((k', v') # d) k v =
     (if k' = k then (k, v) # d else (k', v') # dict_set d k v)"

text \<open>\<open>d.get(k, default)\<close>.\<close>

definition dict_get :: "('k \<times> 'v) list \<Rightarrow> 'k \<Rightarrow> 'v \<Rightarrow> 'v" where
  "dict_get d k dflt = (case map_of d k of Some v \<Rightarrow> v | None \<Rightarrow> dflt)"

text \<open>\<open>sum(xs) / len(xs) if xs else 1.0\<close>, the mean every score dimension uses.\<close>

definition mean_or_one :: "real list \<Rightarrow> real" where
  "mean_or_one xs = (if xs = [] then 1 else sum_list xs / real (length xs))"

section \<open>The data model\<close>

text \<open>
  A recipe as the analyzer, the substitution engine and the orchestrator read it.  A key
  that is read with a default (\<open>recipe.get('ingredients', [])\<close>) and is absent is the
  default here; \<open>id\<close> and \<open>cuisine_type\<close> are read without one and may be absent.
  Every recipe has a title.  Of an ingredient only its name is read.
\<close>

record recipe =
  recipe_id :: "string option"
  title :: string
  cuisine_type :: "string option"
  ingredients :: "string list"
  dietary_tags :: "string list"
  health_benefits :: "string list"
  nutritional_info :: "(string \<times> real) list"

text \<open>
  The guideline tables of \<open>dietary_guidelines.json\<close>.  An unknown key reads as the
  empty dict, whose lists default to \<open>[]\<close>.
\<close>

record restriction_info =
  excluded_ingredients :: "string list"

record allergy_info =
  incompatible_ingredients :: "string list"

record condition_info =
  recommended_benefits :: "string list"
  avoid_nutrients :: "string list"
  recommended_nutrients :: "string list"

record substitute_info =
  sub_name :: string
  sub_ratio :: string
  sub_notes :: string

record guidelines =
  dietary_restrictions :: "(string \<times> restriction_info) list"
  allergies :: "(string \<times> allergy_info) list"
  health_conditions :: "(string \<times> condition_info) list"
  ingredient_substitutions :: "(string \<times> substitute_info list) list"

definition get_restriction_info :: "guidelines \<Rightarrow> string \<Rightarrow> restriction_info" where
  "get_restriction_info g r = dict_get (dietary_restrictions g) r \<lparr>excluded_ingredients = []\<rparr>"

definition get_allergy_info_or_empty :: "guidelines \<Rightarrow> string \<Rightarrow> allergy_info" where
  "get_allergy_info_or_empty g a = dict_get (allergies g) a \<lparr>incompatible_ingredients = []\<rparr>"

definition get_condition_info :: "guidelines \<Rightarrow> string \<Rightarrow> condition_info" where
  "get_condition_info g c =
     dict_get (health_conditions g) c
       \<lparr>recommended_benefits = [], avoid_nutrients = [], recommended_nutrients = []\<rparr>"

section \<open>The compatibility analyzer (\<open>dietary_analyzer.py\<close>)\<close>

text \<open>\<open>DietaryAnalyzer._ingredient_matches\<close>: the fuzzy match of a pattern and an ingredient.\<close>

definition ingredient_matches :: "string \<Rightarrow> string \<Rightarrow> bool" where
  "ingredient_matches pattern ingredient =
     (if pattern = ingredient then True
      else if str_in pattern ingredient then True
      else if str_in ingredient pattern then True
      else list_ex (\<lambda>pattern_word.
             list_ex (\<lambda>ingredient_word.
                 str_in pattern_word ingredient_word \<or> str_in ingredient_word pattern_word)
               (py_split ingredient))
             (py_split pattern))"

text \<open>
  The two nested loops that collect the conflicting ingredients: an ingredient is appended
  once for every listed entry it matches.
\<close>

definition conflicts :: "string list \<Rightarrow> string list \<Rightarrow> string list" where
  "conflicts recipe_ingredients listed =
     concat (map (\<lambda>ingredient.
        map (\<lambda>_. ingredient)
          (filter (\<lambda>entry. ingredient_matches (lower entry) ingredient) listed))
        recipe_ingredients)"

text \<open>The per-key result dicts and the dict each dimension check returns.\<close>

record restriction_result =
  rr_compatible :: bool
  rr_score :: real
  rr_has_restriction_tag :: bool
  rr_conflicting_ingredients :: "string list"
  rr_excluded_ingredients :: "string list"

record allergy_result =
  ar_compatible :: bool
  ar_score :: real
  ar_conflicting_ingredients :: "string list"
  ar_incompatible_ingredients :: "string list"

record health_result =
  hr_compatible :: bool
  hr_score :: real
  hr_has_recommended_benefits :: bool
  hr_nutritional_score :: real

record 'r dimension =
  dim_overall_compatible :: bool
  compatibility_score :: real
  dim_results :: "(string \<times> 'r) list"

definition restriction_entry :: "guidelines \<Rightarrow> recipe \<Rightarrow> string \<Rightarrow> restriction_result" where
  "restriction_entry g rcp restriction =
     (let excluded = excluded_ingredients (get_restriction_info g restriction);
          has_restriction_tag = (restriction \<in> set (dietary_tags rcp));
          conflicting = conflicts (map lower (ingredients rcp)) excluded;
          is_compatible = (has_restriction_tag \<and> conflicting = [])
      in \<lparr>rr_compatible = is_compatible,
          rr_score = (if conflicting \<noteq> [] then 0
                      else if \<not> has_restriction_tag then 0.5
                      else if is_compatible then 1 else 0),
          rr_has_restriction_tag = has_restriction_tag,
          rr_conflicting_ingredients = conflicting,
          rr_excluded_ingredients = excluded\<rparr>)"

definition check_dietary_restrictions ::
    "guidelines \<Rightarrow> recipe \<Rightarrow> string list \<Rightarrow> restriction_result dimension" where
  "check_dietary_restrictions g rcp user_restrictions =
     (if user_restrictions = [] then
        \<lparr>dim_overall_compatible = True, compatibility_score = 1, dim_results = []\<rparr>
      else
        (let results = foldl (\<lambda>d restriction.
                          dict_set d restriction (restriction_entry g rcp restriction))
                        [] user_restrictions;
             overall = mean_or_one (map (\<lambda>kv. rr_score (snd kv)) results)
         in \<lparr>dim_overall_compatible = (overall \<ge> 0.7), compatibility_score = overall,
             dim_results = results\<rparr>))"

definition allergy_entry :: "guidelines \<Rightarrow> recipe \<Rightarrow> string \<Rightarrow> allergy_result" where
  "allergy_entry g rcp allergy =
     (let incompatible = incompatible_ingredients (get_allergy_info_or_empty g allergy);
          conflicting = conflicts (map lower (ingredients rcp)) incompatible;
          is_compatible = (conflicting = [])
      in \<lparr>ar_compatible = is_compatible,
          ar_score = (if is_compatible then 1 else 0),
          ar_conflicting_ingredients = conflicting,
          ar_incompatible_ingredients = incompatible\<rparr>)"

definition check_allergies ::
    "guidelines \<Rightarrow> recipe \<Rightarrow> string list \<Rightarrow> allergy_result dimension" where
  "check_allergies g rcp user_allergies =
     (if user_allergies = [] then
        \<lparr>dim_overall_compatible = True, compatibility_score = 1, dim_results = []\<rparr>
      else
        (let results = foldl (\<lambda>d allergy. dict_set d allergy (allergy_entry g rcp allergy))
                        [] user_allergies;
             overall = mean_or_one (map (\<lambda>kv. ar_score (snd kv)) results)
         in \<lparr>dim_overall_compatible = (overall \<ge> 0.7), compatibility_score = overall,
             dim_results = results\<rparr>))"

text \<open>\<open>_analyze_nutritional_content\<close>: two loops over the nutrient lists, then the clamp.\<close>

definition nutrient_present :: "(string \<times> real) list \<Rightarrow> string \<Rightarrow> bool" where
  "nutrient_present info nutrient =
     (case map_of info nutrient of Some v \<Rightarrow> v > 0 | None \<Rightarrow> False)"

definition analyze_nutritional_content ::
    "(string \<times> real) list \<Rightarrow> string list \<Rightarrow> string list \<Rightarrow> real" where
  "analyze_nutritional_content info recommended avoid =
     (let score1 = foldl (\<lambda>score n. if nutrient_present info n then score - 0.2 else score)
                     1 avoid;
          score2 = foldl (\<lambda>score n. if nutrient_present info n then score + 0.1 else score)
                     score1 recommended
      in max 0 (min 1 score2))"

definition health_entry :: "guidelines \<Rightarrow> recipe \<Rightarrow> string \<Rightarrow> health_result" where
  "health_entry g rcp condition =
     (let info = get_condition_info g condition;
          has_benefits = list_ex (\<lambda>b. b \<in> set (health_benefits rcp)) (recommended_benefits info);
          nutritional_score = analyze_nutritional_content (nutritional_info rcp)
                                (recommended_nutrients info) (avoid_nutrients info);
          overall_condition_score = (if has_benefits then 1 else 0) * 0.6 + nutritional_score * 0.4
      in \<lparr>hr_compatible = (overall_condition_score \<ge> 0.6),
          hr_score = overall_condition_score,
          hr_has_recommended_benefits = has_benefits,
          hr_nutritional_score = nutritional_score\<rparr>)"

definition check_health_conditions ::
    "guidelines \<Rightarrow> recipe \<Rightarrow> string list \<Rightarrow> health_result dimension" where
  "check_health_conditions g rcp user_health_conditions =
     (if user_health_conditions = [] then
        \<lparr>dim_overall_compatible = True, compatibility_score = 1, dim_results = []\<rparr>
      else
        (let results = foldl (\<lambda>d condition. dict_set d condition (health_entry g rcp condition))
                        [] user_health_conditions;
             overall = mean_or_one (map (\<lambda>kv. hr_score (snd kv)) results)
         in \<lparr>dim_overall_compatible = (overall \<ge> 0.6), compatibility_score = overall,
             dim_results = results\<rparr>))"

text \<open>\<open>_calculate_compatibility_score\<close>: the two vetoes, then the weighted sum.\<close>

definition calculate_compatibility_score ::
    "restriction_result dimension \<Rightarrow> allergy_result dimension \<Rightarrow> health_result dimension
       \<Rightarrow> real" where
  "calculate_compatibility_score restriction_compat allergy_compat health_compat =
     (let restriction_score = compatibility_score restriction_compat;
          allergy_score = compatibility_score allergy_compat;
          health_score = compatibility_score health_compat
      in if allergy_score = 0 then 0
         else if restriction_score = 0 then 0
         else restriction_score * 0.4 + allergy_score * 0.4 + health_score * 0.2)"

text \<open>
  \<open>analyze_recipe_compatibility\<close>.  A list argument that is \<open>None\<close> is the empty list
  (\<open>user_allergies or []\<close>).  The issue and suggestion texts are not modelled.
\<close>

record compatibility =
  overall_compatible :: bool
  overall_score :: real
  restriction_compatibility :: "restriction_result dimension"
  allergy_compatibility :: "allergy_result dimension"
  health_compatibility :: "health_result dimension"

definition analyze_recipe_compatibility ::
    "guidelines \<Rightarrow> recipe \<Rightarrow> string list \<Rightarrow> string list \<Rightarrow> string list \<Rightarrow> compatibility" where
  "analyze_recipe_compatibility g rcp user_restrictions user_allergies user_health_conditions =
     (let restriction_compat = check_dietary_restrictions g rcp user_restrictions;
          allergy_compat = check_allergies g rcp user_allergies;
          health_compat = check_health_conditions g rcp user_health_conditions;
          score = calculate_compatibility_score restriction_compat allergy_compat health_compat
      in \<lparr>overall_compatible = (score \<ge> 0.7),
          overall_score = score,
          restriction_compatibility = restriction_compat,
          allergy_compatibility = allergy_compat,
          health_compatibility = health_compat\<rparr>)"

section \<open>The substitution engine (\<open>substitution_engine.py\<close>)\<close>

subsection \<open>Ingredient names\<close>






subsection \<open>The ingredient database\<close>







subsection \<open>Scoring a substitute\<close>

text \<open>\<open>list.sort(key=..., reverse=True)\<close>: stable, largest key first.\<close>

definition sort_desc :: "('a \<Rightarrow> real) \<Rightarrow> 'a list \<Rightarrow> 'a list" where
  "sort_desc key xs = sort_key (\<lambda>x. - key x) xs"

text \<open>Python's \<open>xs[:n]\<close>; a negative \<open>n\<close> counts from the end.\<close>

definition py_take :: "int \<Rightarrow> 'a list \<Rightarrow> 'a list" where
  "py_take n xs = (if n \<ge> 0 then take (nat n) xs else take (length xs - nat (- n)) xs)"








subsection \<open>Nutrition optimisation\<close>












section \<open>The vector store (\<open>simple_vector_store.py\<close>)\<close>

text \<open>
  The values a metadata dict and a filter hold: \<open>None\<close>, a number, a string or a list.
\<close>

datatype pyval = PNone | PNum real | PStr string | PList "pyval list"

text \<open>
  \<open>x in y\<close>: membership in a list, the substring test on two strings, and a
  \<open>TypeError\<close> for every other right-hand side.
\<close>

fun py_in :: "pyval \<Rightarrow> pyval \<Rightarrow> py_error + bool" where
  "py_in x (PList ys) = Inr (x \<in> set ys)"
| "py_in (PStr p) (PStr s) = Inr (str_in p s)"
| "py_in x y = Inl TypeError"

text \<open>
  \<open>for v in y\<close>: a list gives its elements, a string its characters as one-character
  strings, anything else is not iterable.
\<close>

fun py_iter :: "pyval \<Rightarrow> py_error + pyval list" where
  "py_iter (PList ys) = Inr ys"
| "py_iter (PStr s) = Inr (map (\<lambda>c. PStr [c]) s)"
| "py_iter y = Inl TypeError"

text \<open>
  \<open>any(v in metadata_value for v in given)\<close> where \<open>metadata_value\<close> is a list.
\<close>

definition any_in_list :: "pyval \<Rightarrow> pyval list \<Rightarrow> py_error + bool" where
  "any_in_list given metadata_list =
     (case py_iter given of
        Inl e \<Rightarrow> Inl e
      | Inr vs \<Rightarrow> Inr (list_ex (\<lambda>v. v \<in> set metadata_list) vs))"

text \<open>
  A filter maps a field to a constraint: a dict of operators or a bare value.
\<close>

datatype constraint = Ops "(string \<times> pyval) list" | Bare pyval

type_synonym metadata = "(string \<times> pyval) list"

type_synonym filter_dict = "(string \<times> constraint) list"

text \<open>
  One round of the loop over the filter's items in \<open>_apply_filters\<close>, for a field the
  metadata has: whether the constraint holds.  The operators are tried in the order
  \<open>$in\<close>, \<open>$contains\<close>, \<open>$not_contains\<close>; a dict with none of them is compared with
  the metadata value, which is never a dict.
\<close>

definition constraint_holds :: "pyval \<Rightarrow> constraint \<Rightarrow> py_error + bool" where
  "constraint_holds metadata_value value =
     (case value of
        Bare v \<Rightarrow> Inr (metadata_value = v)
      | Ops ops \<Rightarrow>
          (case map_of ops ''$in'' of
             Some given \<Rightarrow>
               (case metadata_value of
                  PList ys \<Rightarrow> any_in_list given ys
                | _ \<Rightarrow> py_in metadata_value given)
           | None \<Rightarrow>
               (case map_of ops ''$contains'' of
                  Some given \<Rightarrow>
                    (case metadata_value of
                       PList ys \<Rightarrow> any_in_list given ys
                     | _ \<Rightarrow> py_in given metadata_value)
                | None \<Rightarrow>
                    (case map_of ops ''$not_contains'' of
                       Some given \<Rightarrow>
                         (case metadata_value of
                            PList ys \<Rightarrow> map_sum id Not (any_in_list given ys)
                          | _ \<Rightarrow> map_sum id Not (py_in given metadata_value))
                     | None \<Rightarrow> Inr False))))"

text \<open>
  The loop over the filter's items for one entry: a field the metadata lacks, or a
  constraint that does not hold, ends it with no match.
\<close>

fun matches_filters :: "metadata \<Rightarrow> filter_dict \<Rightarrow> py_error + bool" where
  "matches_filters md [] = Inr True"
| "matches_filters md ((key, value) # rest) =
     (case map_of md key of
        None \<Rightarrow> Inr False
      | Some metadata_value \<Rightarrow>
          (case constraint_holds metadata_value value of
             Inl e \<Rightarrow> Inl e
           | Inr False \<Rightarrow> Inr False
           | Inr True \<Rightarrow> matches_filters md rest))"

text \<open>\<open>_apply_filters\<close>: the indices of the matching entries, counted from \<open>i\<close>.\<close>

fun apply_filters_from :: "nat \<Rightarrow> metadata list \<Rightarrow> filter_dict \<Rightarrow> py_error + nat list" where
  "apply_filters_from i [] flt = Inr []"
| "apply_filters_from i (md # mds) flt =
     (case matches_filters md flt of
        Inl e \<Rightarrow> Inl e
      | Inr m \<Rightarrow>
          (case apply_filters_from (Suc i) mds flt of
             Inl e \<Rightarrow> Inl e
           | Inr rest \<Rightarrow> Inr (if m then i # rest else rest)))"

definition apply_filters :: "metadata list \<Rightarrow> filter_dict \<Rightarrow> py_error + nat list" where
  "apply_filters mds flt = apply_filters_from 0 mds flt"

text \<open>
  The store keeps ids, documents, metadata and embeddings in parallel lists that
  \<open>add_recipes\<close> extends together; here they are one list of entries.
\<close>

record index_entry =
  en_id :: string
  en_document :: string
  en_metadata :: metadata

record hit =
  hit_id :: string
  hit_document :: string
  hit_metadata :: metadata
  hit_distance :: real

text \<open>
  \<open>SimpleVectorStore.search_recipes\<close>.  The cosine similarity of the query's embedding
  and the embedding of entry \<open>i\<close> is not modelled: it is \<open>sims ! i\<close>.  An empty filter is
  the \<open>None\<close> of the source; both skip the filtering.
\<close>

definition to_hit :: "nat \<times> index_entry \<times> real \<Rightarrow> hit" where
  "to_hit p =
     \<lparr>hit_id = en_id (fst (snd p)), hit_document = en_document (fst (snd p)),
      hit_metadata = en_metadata (fst (snd p)), hit_distance = 1 - snd (snd p)\<rparr>"

definition store_search ::
    "index_entry list \<Rightarrow> real list \<Rightarrow> int \<Rightarrow> filter_dict \<Rightarrow> py_error + hit list" where
  "store_search entries sims n_results flt =
     (let similarities = sort_desc (\<lambda>p. snd (snd p))
                           (zip [0 ..< length entries] (zip entries sims))
      in if flt = [] then Inr (map to_hit (py_take n_results similarities))
         else
           (case apply_filters (map en_metadata entries) flt of
              Inl e \<Rightarrow> Inl e
            | Inr filtered_indices \<Rightarrow>
                Inr (map to_hit
                       (py_take n_results
                          (filter (\<lambda>p. fst p \<in> set filtered_indices) similarities)))))"

section \<open>The ranking orchestrator (\<open>rag_pipeline.py\<close>, \<open>data_processor.py\<close>)\<close>

text \<open>
  \<open>DataProcessor.get_recipe_metadata\<close>: the metadata dict built for one recipe, and the
  list for the corpus.
\<close>

definition recipe_metadata :: "recipe \<Rightarrow> metadata" where
  "recipe_metadata r =
     [(''id'', case recipe_id r of None \<Rightarrow> PNone | Some i \<Rightarrow> PStr i),
      (''title'', PStr (title r)),
      (''cuisine_type'', case cuisine_type r of None \<Rightarrow> PNone | Some c \<Rightarrow> PStr c),
      (''dietary_tags'', PList (map PStr (dietary_tags r))),
      (''health_benefits'', PList (map PStr (health_benefits r))),
      (''calories'', PNum (dict_get (nutritional_info r) ''calories'' 0)),
      (''protein'', PNum (dict_get (nutritional_info r) ''protein'' 0)),
      (''carbohydrates'', PNum (dict_get (nutritional_info r) ''carbohydrates'' 0)),
      (''fat'', PNum (dict_get (nutritional_info r) ''fat'' 0)),
      (''fiber'', PNum (dict_get (nutritional_info r) ''fiber'' 0))]"

definition get_recipe_metadata :: "recipe list \<Rightarrow> metadata list" where
  "get_recipe_metadata recipes = map recipe_metadata recipes"

text \<open>\<open>_build_filter_dict\<close>; the empty filter is the \<open>None\<close> it returns.\<close>

definition health_benefits_mapping :: "(string \<times> string list) list" where
  "health_benefits_mapping =
     [(''diabetes'', [''diabetes_friendly'', ''blood_sugar_control'']),
      (''heart_disease'', [''heart_healthy'', ''cholesterol_lowering'']),
      (''hypertension'', [''blood_pressure_control'', ''heart_healthy'']),
      (''celiac_disease'', [''celiac_safe'', ''gluten_free'']),
      (''lactose_intolerance'', [''lactose_intolerance_safe'', ''dairy_free'']),
      (''obesity'', [''weight_management'', ''low_carb''])]"

definition allergy_exclusions :: "guidelines \<Rightarrow> string list \<Rightarrow> string list" where
  "allergy_exclusions g allergy_list =
     concat (map (\<lambda>allergy. incompatible_ingredients (get_allergy_info_or_empty g allergy))
               allergy_list)"

definition build_filter_dict ::
    "guidelines \<Rightarrow> string list \<Rightarrow> string list \<Rightarrow> string list \<Rightarrow> filter_dict" where
  "build_filter_dict g restrictions allergy_list conditions =
     (let relevant_benefits =
            concat (map (\<lambda>condition. dict_get health_benefits_mapping condition []) conditions)
      in (if restrictions \<noteq> []
          then [(''dietary_tags'', Ops [(''$in'', PList (map PStr restrictions))])]
          else [])
         @ (if allergy_list \<noteq> [] \<and> allergy_exclusions g allergy_list \<noteq> []
            then [(''ingredients'',
                   Ops [(''$not_contains'', PList (map PStr (allergy_exclusions g allergy_list)))])]
            else [])
         @ (if conditions \<noteq> [] \<and> relevant_benefits \<noteq> []
            then [(''health_benefits'', Ops [(''$in'', PList (map PStr relevant_benefits))])]
            else []))"

text \<open>
  \<open>_find_recipe_by_text\<close>: the text before the first \<open>" | "\<close> must read
  \<open>"Title: " + title\<close>; the first recipe of the corpus with that title is the result.
\<close>

fun before_sep :: "string \<Rightarrow> string \<Rightarrow> string" where
  "before_sep sep [] = []"
| "before_sep sep (c # s) = (if startswith (c # s) sep then [] else c # before_sep sep s)"

definition find_recipe_by_text :: "recipe list \<Rightarrow> string \<Rightarrow> recipe option" where
  "find_recipe_by_text recipes text =
     (if \<not> str_in '' | '' text then None
      else
        (let title_part = before_sep '' | '' text
         in if startswith title_part ''Title: ''
            then find (\<lambda>r. title r = drop 7 title_part) recipes
            else None))"

text \<open>
  \<open>max(xs)\<close> and \<open>a / b\<close>.  Dividing by zero has no value: a Python float raises
  \<open>ZeroDivisionError\<close>, a numpy scalar gives \<open>nan\<close> or \<open>inf\<close> with a warning; both
  are the error here.
\<close>

fun py_max :: "real list \<Rightarrow> py_error + real" where
  "py_max [] = Inl ValueError"
| "py_max (x # xs) = Inr (foldl max x xs)"

definition py_div :: "real \<Rightarrow> real \<Rightarrow> py_error + real" where
  "py_div a b = (if b = 0 then Inl ZeroDivisionError else Inr (a / b))"

record search_result =
  sr_recipe :: recipe
  sr_compatibility :: compatibility
  search_score :: real
  res_overall_score :: real
  distance :: real
  sr_metadata :: metadata

definition calculate_overall_score :: "real \<Rightarrow> real \<Rightarrow> real" where
  "calculate_overall_score s c = s * 0.6 + c * 0.4"

text \<open>
  The loop of \<open>search_recipes\<close> over the hits of the vector store; \<open>distances\<close> is the
  list of all their distances.  A hit whose text resolves to no recipe is skipped.
\<close>

fun analyze_hits ::
    "guidelines \<Rightarrow> recipe list \<Rightarrow> string list \<Rightarrow> string list \<Rightarrow> string list \<Rightarrow> real list
       \<Rightarrow> hit list \<Rightarrow> py_error + search_result list" where
  "analyze_hits g recipes rs als hs distances [] = Inr []"
| "analyze_hits g recipes rs als hs distances (h # hits) =
     (case find_recipe_by_text recipes (hit_document h) of
        None \<Rightarrow> analyze_hits g recipes rs als hs distances hits
      | Some rcp \<Rightarrow>
          (case py_max distances of
             Inl e \<Rightarrow> Inl e
           | Inr m \<Rightarrow>
               (case py_div (hit_distance h) m of
                  Inl e \<Rightarrow> Inl e
                | Inr q \<Rightarrow>
                    (case analyze_hits g recipes rs als hs distances hits of
                       Inl e \<Rightarrow> Inl e
                     | Inr rest \<Rightarrow>
                         Inr (\<lparr>sr_recipe = rcp,
                               sr_compatibility = analyze_recipe_compatibility g rcp rs als hs,
                               search_score = 1 - q,
                               res_overall_score =
                                 calculate_overall_score (1 - q)
                                   (overall_score (analyze_recipe_compatibility g rcp rs als hs)),
                               distance = hit_distance h,
                               sr_metadata = hit_metadata h\<rparr> # rest)))))"

text \<open>The entry appended for a generated recipe.\<close>

definition dynamic_metadata :: "recipe \<Rightarrow> metadata" where
  "dynamic_metadata r =
     [(''title'', PStr (title r)),
      (''cuisine_type'', PStr (case cuisine_type r of None \<Rightarrow> ''Dynamic'' | Some c \<Rightarrow> c)),
      (''dietary_tags'', PList (map PStr (dietary_tags r))),
      (''health_benefits'', PList (map PStr (health_benefits r))),
      (''calories'', PNum (dict_get (nutritional_info r) ''calories'' 0)),
      (''protein'', PNum (dict_get (nutritional_info r) ''protein'' 0)),
      (''carbohydrates'', PNum (dict_get (nutritional_info r) ''carbohydrates'' 0)),
      (''fat'', PNum (dict_get (nutritional_info r) ''fat'' 0)),
      (''fiber'', PNum (dict_get (nutritional_info r) ''fiber'' 0))]"

definition dynamic_entry ::
    "guidelines \<Rightarrow> string list \<Rightarrow> string list \<Rightarrow> string list \<Rightarrow> recipe \<Rightarrow> search_result" where
  "dynamic_entry g rs als hs rcp =
     \<lparr>sr_recipe = rcp,
      sr_compatibility = analyze_recipe_compatibility g rcp rs als hs,
      search_score = 0.8,
      res_overall_score = overall_score (analyze_recipe_compatibility g rcp rs als hs) * 0.8,
      distance = 0.2,
      sr_metadata = dynamic_metadata rcp\<rparr>"

text \<open>
  The pipeline after \<open>_load_data\<close>: the guideline tables, the corpus and the entries of
  the vector store.
\<close>

record pipeline =
  pl_guidelines :: guidelines
  pl_recipes :: "recipe list"
  pl_entries :: "index_entry list"

text \<open>
  The merged candidates of \<open>search_recipes\<close>, before the sort.  Two things the request
  decides are inputs: \<open>sims\<close>, the similarity of the query with every entry of the store,
  and \<open>generated\<close>, the list the recipe generator returns, which draws on \<open>random\<close>.
\<close>

definition analyzed_results ::
    "pipeline \<Rightarrow> real list \<Rightarrow> recipe list \<Rightarrow> string list \<Rightarrow> string list \<Rightarrow> string list
       \<Rightarrow> int \<Rightarrow> bool \<Rightarrow> py_error + search_result list" where
  "analyzed_results pl sims generated rs als hs n_results include_dynamic =
     (case store_search (pl_entries pl) sims (n_results * 2)
             (build_filter_dict (pl_guidelines pl) rs als hs) of
        Inl e \<Rightarrow> Inl e
      | Inr hits \<Rightarrow>
          (case analyze_hits (pl_guidelines pl) (pl_recipes pl) rs als hs
                  (map hit_distance hits) hits of
             Inl e \<Rightarrow> Inl e
           | Inr static \<Rightarrow>
               Inr (static @
                    (if include_dynamic
                     then map (dynamic_entry (pl_guidelines pl) rs als hs)
                            (py_take n_results generated)
                     else []))))"

text \<open>The loop that keeps the first result of every title.\<close>

fun dedup_titles :: "string set \<Rightarrow> search_result list \<Rightarrow> search_result list" where
  "dedup_titles seen [] = []"
| "dedup_titles seen (r # rest) =
     (if title (sr_recipe r) \<notin> seen
      then r # dedup_titles (insert (title (sr_recipe r)) seen) rest
      else dedup_titles seen rest)"

record search_response =
  results :: "search_result list"
  total_found :: nat
  dynamic_recipes_included :: bool

definition search_recipes ::
    "pipeline \<Rightarrow> real list \<Rightarrow> recipe list \<Rightarrow> string list \<Rightarrow> string list \<Rightarrow> string list
       \<Rightarrow> int \<Rightarrow> bool \<Rightarrow> py_error + search_response" where
  "search_recipes pl sims generated rs als hs n_results include_dynamic =
     (case analyzed_results pl sims generated rs als hs n_results include_dynamic of
        Inl e \<Rightarrow> Inl e
      | Inr analyzed \<Rightarrow>
          (let unique_results = dedup_titles {} (sort_desc res_overall_score analyzed)
           in Inr \<lparr>results = py_take n_results unique_results,
                   total_found = length unique_results,
                   dynamic_recipes_included = include_dynamic\<rparr>))"

section \<open>Example data\<close>

text \<open>
  A tofu bowl and a guideline table with two allergies; the recipe conflicts with the soy
  allergy and not with the peanut allergy.
\<close>

definition soy_guidelines :: guidelines where
  "soy_guidelines =
     \<lparr>dietary_restrictions =
        [(''vegetarian'', \<lparr>excluded_ingredients = [''chicken'', ''beef'']\<rparr>)],
      allergies =
        [(''soy'', \<lparr>incompatible_ingredients = [''soy'', ''tofu'']\<rparr>),
         (''peanut'', \<lparr>incompatible_ingredients = [''peanut'', ''Peanut Butter'']\<rparr>)],
      health_conditions = [],
      ingredient_substitutions = []\<rparr>"

definition tofu_recipe :: recipe where
  "tofu_recipe =
     \<lparr>recipe_id = None, title = ''Tofu Bowl'', cuisine_type = None,
      ingredients = [''tofu'', ''soy sauce'', ''rice''],
      dietary_tags = [''vegetarian'', ''vegan''], health_benefits = [],
      nutritional_info = []\<rparr>"




text \<open>
  A corpus of two recipes with their two entries in the vector store, two generated
  recipes (one with the title of a recipe of the corpus), and the response to a search
  with no restriction, allergy or condition for the similarities 1/2 and 1/4.
\<close>

definition rice_recipe :: recipe where
  "rice_recipe =
     \<lparr>recipe_id = Some ''r1'', title = ''Rice'', cuisine_type = None, ingredients = [''rice''],
      dietary_tags = [''vegan''], health_benefits = [], nutritional_info = []\<rparr>"

definition soup_recipe :: recipe where
  "soup_recipe =
     \<lparr>recipe_id = Some ''r2'', title = ''Soup'', cuisine_type = None, ingredients = [''leek''],
      dietary_tags = [], health_benefits = [], nutritional_info = []\<rparr>"

definition snack :: recipe where
  "snack =
     \<lparr>recipe_id = Some ''dynamic_recipe_1'', title = ''Snack'', cuisine_type = Some ''thai'',
      ingredients = [''nuts''], dietary_tags = [], health_benefits = [],
      nutritional_info = []\<rparr>"

definition rice_dynamic :: recipe where
  "rice_dynamic =
     \<lparr>recipe_id = Some ''dynamic_recipe_2'', title = ''Rice'', cuisine_type = Some ''thai'',
      ingredients = [''rice''], dietary_tags = [], health_benefits = [],
      nutritional_info = []\<rparr>"

definition rice_pipeline :: pipeline where
  "rice_pipeline =
     \<lparr>pl_guidelines = soy_guidelines,
      pl_recipes = [rice_recipe, soup_recipe],
      pl_entries = [\<lparr>en_id = ''a'', en_document = ''Title: Rice | plain'',
                     en_metadata = recipe_metadata rice_recipe\<rparr>,
                    \<lparr>en_id = ''b'', en_document = ''Title: Soup | hot'',
                     en_metadata = recipe_metadata soup_recipe\<rparr>]\<rparr>"

definition soup_static :: search_result where
  "soup_static =
     \<lparr>sr_recipe = soup_recipe,
      sr_compatibility = analyze_recipe_compatibility soy_guidelines soup_recipe [] [] [],
      search_score = 0, res_overall_score = 2 / 5, distance = 3 / 4,
      sr_metadata = recipe_metadata soup_recipe\<rparr>"

definition rice_static :: search_result where
  "rice_static =
     \<lparr>sr_recipe = rice_recipe,
      sr_compatibility = analyze_recipe_compatibility soy_guidelines rice_recipe [] [] [],
      search_score = 1 / 3, res_overall_score = 3 / 5, distance = 1 / 2,
      sr_metadata = recipe_metadata rice_recipe\<rparr>"

definition rice_response :: search_response where
  "rice_response =
     \<lparr>results = [dynamic_entry soy_guidelines [] [] [] snack,
                 dynamic_entry soy_guidelines [] [] [] rice_dynamic,
                 soup_static],
      total_found = 3,
      dynamic_recipes_included = True\<rparr>"

section \<open>Properties of the compatibility analyzer\<close>

text \<open>
  C2. The overall score of \<open>analyze_recipe_compatibility\<close> is
  restriction * 0.4 + allergy * 0.4 + health * 0.2 over the three dimension scores the
  result carries, except that it is 0 when the restriction score or the allergy score is
  0; and the overall flag is true exactly when the overall score is at least 0.7.
\<close>

theorem analyze_fusion:
  "overall_score (analyze_recipe_compatibility g rcp rs als hs) =
     (if compatibility_score (check_dietary_restrictions g rcp rs) = 0
         \<or> compatibility_score (check_allergies g rcp als) = 0
      then 0
      else compatibility_score (check_dietary_restrictions g rcp rs) * 0.4
           + compatibility_score (check_allergies g rcp als) * 0.4
           + compatibility_score (check_health_conditions g rcp hs) * 0.2)
   \<and> overall_compatible (analyze_recipe_compatibility g rcp rs als hs) =
       (overall_score (analyze_recipe_compatibility g rcp rs als hs) \<ge> 0.7)
   \<and> restriction_compatibility (analyze_recipe_compatibility g rcp rs als hs) =
       check_dietary_restrictions g rcp rs
   \<and> allergy_compatibility (analyze_recipe_compatibility g rcp rs als hs) =
       check_allergies g rcp als
   \<and> health_compatibility (analyze_recipe_compatibility g rcp rs als hs) =
       check_health_conditions g rcp hs"
  by (simp add: analyze_recipe_compatibility_def calculate_compatibility_score_def Let_def)

lemma tofu_soy_entry:
  "allergy_entry soy_guidelines tofu_recipe ''soy'' =
     \<lparr>ar_compatible = False, ar_score = 0,
      ar_conflicting_ingredients = [''tofu'', ''soy sauce''],
      ar_incompatible_ingredients = [''soy'', ''tofu'']\<rparr>"
  by code_simp

lemma tofu_peanut_entry:
  "allergy_entry soy_guidelines tofu_recipe ''peanut'' =
     \<lparr>ar_compatible = True, ar_score = 1, ar_conflicting_ingredients = [],
      ar_incompatible_ingredients = [''peanut'', ''Peanut Butter'']\<rparr>"
  by code_simp

lemma tofu_vegetarian_entry:
  "restriction_entry soy_guidelines tofu_recipe ''vegetarian'' =
     \<lparr>rr_compatible = True, rr_score = 1, rr_has_restriction_tag = True,
      rr_conflicting_ingredients = [], rr_excluded_ingredients = [''chicken'', ''beef'']\<rparr>"
  by code_simp

lemmas tofu_entries = tofu_soy_entry tofu_peanut_entry tofu_vegetarian_entry

lemmas analyzer_defs =
  analyze_recipe_compatibility_def check_allergies_def check_dietary_restrictions_def
  check_health_conditions_def calculate_compatibility_score_def mean_or_one_def Let_def

text \<open>
  With soy as the only allergy the veto works: the allergy score and the overall score
  are 0 and the recipe is not compatible.
\<close>

lemma allergy_veto_single:
  "compatibility_score (allergy_compatibility
      (analyze_recipe_compatibility soy_guidelines tofu_recipe [''vegetarian''] [''soy''] [])) = 0
   \<and> overall_score
        (analyze_recipe_compatibility soy_guidelines tofu_recipe [''vegetarian''] [''soy''] []) = 0
   \<and> \<not> overall_compatible
        (analyze_recipe_compatibility soy_guidelines tofu_recipe [''vegetarian''] [''soy''] [])"
  by (simp add: analyzer_defs tofu_entries)

text \<open>
  C1. The claim: one conflicting allergy forces the overall score to 0 and the flag to
  False, also when the profile lists further allergies that do not conflict.  The code
  averages the per-allergy scores before the veto tests the average against 0: for the
  tofu bowl and the allergies soy (conflicting) and peanut (not conflicting) the allergy
  score is 1/2, the overall score is 4/5 and the recipe is reported compatible.
\<close>

theorem allergy_veto_diluted:
  "ar_conflicting_ingredients (allergy_entry soy_guidelines tofu_recipe ''soy'')
     = [''tofu'', ''soy sauce'']
   \<and> compatibility_score (allergy_compatibility
        (analyze_recipe_compatibility soy_guidelines tofu_recipe
           [''vegetarian''] [''soy'', ''peanut''] [])) = 1 / 2
   \<and> overall_score (analyze_recipe_compatibility soy_guidelines tofu_recipe
         [''vegetarian''] [''soy'', ''peanut''] []) = 4 / 5
   \<and> overall_compatible (analyze_recipe_compatibility soy_guidelines tofu_recipe
         [''vegetarian''] [''soy'', ''peanut''] [])"
  by (simp add: analyzer_defs tofu_entries)

section \<open>Properties of the substitution engine\<close>



lemma set_sort_desc: "set (sort_desc key xs) = set xs"
  by (simp add: sort_desc_def)






















section \<open>Properties of the vector store\<close>

text \<open>
  What \<open>$contains\<close> with a string does: on a list field it holds when a single
  character of the string is an element of the list, on a string field when the string
  occurs in the field.
\<close>

lemma contains_on_list_field:
  "constraint_holds (PList ys) (Ops [(''$contains'', PStr x)])
     = Inr (\<exists>c \<in> set x. PStr [c] \<in> set ys)"
  by (auto simp: constraint_holds_def any_in_list_def list_ex_iff)

lemma str_in_iff: "str_in p s \<longleftrightarrow> (\<exists>a b. s = a @ p @ b)"
proof (induction s)
  case Nil
  then show ?case by (auto simp: startswith_def)
next
  case (Cons c s)
  have "startswith (c # s) p \<longleftrightarrow> (\<exists>b. c # s = p @ b)"
    unfolding startswith_def
    by (metis append_eq_conv_conj append_take_drop_id)
  moreover have "(\<exists>a b. c # s = a @ p @ b) \<longleftrightarrow> (\<exists>b. c # s = p @ b) \<or> (\<exists>a b. s = a @ p @ b)"
  proof
    assume "\<exists>a b. c # s = a @ p @ b"
    then obtain a b where ab: "c # s = a @ p @ b" by blast
    show "(\<exists>b. c # s = p @ b) \<or> (\<exists>a b. s = a @ p @ b)"
    proof (cases a)
      case Nil
      then show ?thesis using ab by auto
    next
      case (Cons x a')
      then have "s = a' @ p @ b" using ab by simp
      then show ?thesis by blast
    qed
  next
    assume "(\<exists>b. c # s = p @ b) \<or> (\<exists>a b. s = a @ p @ b)"
    then show "\<exists>a b. c # s = a @ p @ b"
    proof
      assume "\<exists>b. c # s = p @ b"
      then show ?thesis by (metis append_Nil)
    next
      assume "\<exists>a b. s = a @ p @ b"
      then obtain a b where "s = a @ p @ b" by blast
      then have "c # s = (c # a) @ p @ b" by simp
      then show ?thesis by blast
    qed
  qed
  ultimately show ?case using Cons.IH by simp
qed

lemma contains_on_string_field:
  "constraint_holds (PStr s) (Ops [(''$contains'', PStr x)]) = Inr (\<exists>a b. s = a @ x @ b)"
  by (simp add: constraint_holds_def str_in_iff)

text \<open>
  C9. The claim: \<open>{field: {"$contains": X}}\<close> with a string \<open>X\<close> matches an entry whose
  field is a collection exactly when \<open>X\<close> is an element of it.  The code iterates over
  \<open>X\<close>: the entry with the tags vegan and keto does not match \<open>$contains\<close> vegan,
  although vegan is an element of its tags.
\<close>

theorem contains_iterates_characters:
  "matches_filters [(''dietary_tags'', PList [PStr ''vegan'', PStr ''keto''])]
       [(''dietary_tags'', Ops [(''$contains'', PStr ''vegan'')])] = Inr False
   \<and> PStr ''vegan'' \<in> set [PStr ''vegan'', PStr ''keto'']
   \<and> apply_filters [[(''dietary_tags'', PList [PStr ''vegan'', PStr ''keto''])]]
       [(''dietary_tags'', Ops [(''$contains'', PStr ''vegan'')])] = Inr []"
  by (simp add: constraint_holds_def any_in_list_def apply_filters_def)

section \<open>Properties of the ranking orchestrator\<close>

subsection \<open>Lists, the sort and the loop over the titles\<close>

lemma set_py_take: "set (py_take n xs) \<subseteq> set xs"
  by (simp add: py_take_def set_take_subset)

lemma length_py_take: "0 \<le> n \<Longrightarrow> int (length (py_take n xs)) \<le> n"
  by (simp add: py_take_def)

lemma length_py_take_le: "length (py_take n xs) \<le> length xs"
  by (simp add: py_take_def)


lemma foldl_max: "foldl max x xs = Max (set (x # (xs :: real list)))"
proof (induction xs arbitrary: x)
  case Nil
  then show ?case by simp
next
  case (Cons y ys)
  have "Max (set (max x y # ys)) = Max (set (x # y # ys))"
    by (cases "ys = []") (simp_all add: max.assoc)
  then show ?case using Cons.IH [of "max x y"] by simp
qed



lemma dedup_subset: "set (dedup_titles seen xs) \<subseteq> set xs"
  by (induction xs arbitrary: seen) auto


lemma search_recipes_Inr:
  assumes "search_recipes pl sims generated rs als hs n incl = Inr resp"
  shows "\<exists>merged. analyzed_results pl sims generated rs als hs n incl = Inr merged
           \<and> results resp = py_take n (dedup_titles {} (sort_desc res_overall_score merged))
           \<and> total_found resp = length (dedup_titles {} (sort_desc res_overall_score merged))"
  using assms by (auto simp: search_recipes_def Let_def split: sum.splits)




text \<open>
  The search returns a response whenever the vector store returns its hits and their
  largest distance is not 0.
\<close>

lemma analyze_hits_returns:
  assumes "ds \<noteq> []" and "Max (set ds) \<noteq> 0"
  shows "\<exists>static. analyze_hits g recipes rs als hs ds hits = Inr static"
proof (induction hits)
  case Nil
  then show ?case by simp
next
  case (Cons h hits)
  obtain x xs where ds: "ds = x # xs"
    using assms(1) by (cases ds) auto
  have "py_max ds = Inr (Max (set ds))"
    unfolding ds by (simp add: foldl_max)
  then show ?case
    using Cons.IH assms(2)
    by (auto simp: py_div_def split: option.splits)
qed

lemma search_recipes_returns:
  assumes "store_search (pl_entries pl) sims (n * 2)
             (build_filter_dict (pl_guidelines pl) rs als hs) = Inr hits"
      and "hits \<noteq> [] \<Longrightarrow> Max (set (map hit_distance hits)) \<noteq> 0"
  shows "\<exists>resp. search_recipes pl sims generated rs als hs n incl = Inr resp"
proof -
  have "\<exists>static. analyze_hits (pl_guidelines pl) (pl_recipes pl) rs als hs
                    (map hit_distance hits) hits = Inr static"
  proof (cases "hits = []")
    case True
    then show ?thesis by simp
  next
    case False
    then show ?thesis
      using assms(2) by (intro analyze_hits_returns) auto
  qed
  then show ?thesis
    using assms(1) by (auto simp: search_recipes_def analyzed_results_def Let_def)
qed

subsection \<open>The search on the example corpus\<close>

lemma analyze_unconstrained:
  "overall_score (analyze_recipe_compatibility g rcp [] [] []) = 1"
  by (simp add: analyze_recipe_compatibility_def check_allergies_def check_dietary_restrictions_def
  check_health_conditions_def calculate_compatibility_score_def)

lemma find_rice:
  "find_recipe_by_text [rice_recipe, soup_recipe] ''Title: Rice | plain'' = Some rice_recipe"
  by code_simp

lemma find_soup:
  "find_recipe_by_text [rice_recipe, soup_recipe] ''Title: Soup | hot'' = Some soup_recipe"
  by code_simp

lemma example_titles:
  "title rice_recipe = ''Rice''" "title soup_recipe = ''Soup''"
  "title snack = ''Snack''" "title rice_dynamic = ''Rice''"
  by (simp_all add: rice_recipe_def soup_recipe_def snack_def rice_dynamic_def)

lemma rice_hits:
  "store_search (pl_entries rice_pipeline) [1 / 2, 1 / 4] 6 []
     = Inr [\<lparr>hit_id = ''a'', hit_document = ''Title: Rice | plain'',
              hit_metadata = recipe_metadata rice_recipe, hit_distance = 1 / 2\<rparr>,
            \<lparr>hit_id = ''b'', hit_document = ''Title: Soup | hot'',
              hit_metadata = recipe_metadata soup_recipe, hit_distance = 3 / 4\<rparr>]"
  by (simp add: store_search_def rice_pipeline_def sort_desc_def py_take_def to_hit_def)

lemma rice_merged:
  "analyzed_results rice_pipeline [1 / 2, 1 / 4] [snack, rice_dynamic] [] [] [] 3 True
     = Inr [rice_static, soup_static,
            dynamic_entry soy_guidelines [] [] [] snack,
            dynamic_entry soy_guidelines [] [] [] rice_dynamic]"
proof -
  have g: "pl_guidelines rice_pipeline = soy_guidelines"
       "pl_recipes rice_pipeline = [rice_recipe, soup_recipe]"
    by (simp_all add: rice_pipeline_def)
  have f: "build_filter_dict soy_guidelines [] [] [] = []"
    by (simp add: build_filter_dict_def)
  show ?thesis
    by (simp add: analyzed_results_def g f rice_hits find_rice find_soup py_div_def
        calculate_overall_score_def analyze_unconstrained rice_static_def soup_static_def
        py_take_def)
qed

lemma rice_scores:
  "res_overall_score rice_static = 3 / 5" "res_overall_score soup_static = 2 / 5"
  "res_overall_score (dynamic_entry soy_guidelines [] [] [] rcp) = 4 / 5"
  by (simp_all add: rice_static_def soup_static_def dynamic_entry_def analyze_unconstrained)

lemma rice_result_titles:
  "title (sr_recipe rice_static) = ''Rice''" "title (sr_recipe soup_static) = ''Soup''"
  "title (sr_recipe (dynamic_entry soy_guidelines [] [] [] snack)) = ''Snack''"
  "title (sr_recipe (dynamic_entry soy_guidelines [] [] [] rice_dynamic)) = ''Rice''"
  by (simp_all add: rice_static_def soup_static_def dynamic_entry_def example_titles)

lemma rice_sorted:
  "sort_desc res_overall_score
     [rice_static, soup_static, dynamic_entry soy_guidelines [] [] [] snack,
      dynamic_entry soy_guidelines [] [] [] rice_dynamic]
   = [dynamic_entry soy_guidelines [] [] [] snack,
      dynamic_entry soy_guidelines [] [] [] rice_dynamic, rice_static, soup_static]"
  by (simp add: sort_desc_def rice_scores)

lemma rice_search:
  "search_recipes rice_pipeline [1 / 2, 1 / 4] [snack, rice_dynamic] [] [] [] 3 True
     = Inr rice_response"
  by (simp add: search_recipes_def rice_merged rice_sorted rice_result_titles rice_response_def
      py_take_def)


lemma rice_results:
  "results rice_response
     = [dynamic_entry soy_guidelines [] [] [] snack,
        dynamic_entry soy_guidelines [] [] [] rice_dynamic, soup_static]"
  "total_found rice_response = 3"
  by (simp_all add: rice_response_def)

subsection \<open>The allergy filter\<close>

lemma matches_missing_field:
  "map_of md key = None \<Longrightarrow> (key, c) \<in> set flt \<Longrightarrow> matches_filters md flt \<noteq> Inr True"
  by (induction flt) (auto split: option.splits sum.splits bool.splits)

lemma recipe_metadata_no_ingredients: "map_of (recipe_metadata r) ''ingredients'' = None"
  by (simp add: recipe_metadata_def)

lemma in_constraint_on_tags:
  "\<exists>b. constraint_holds (PList ys) (Ops [(''$in'', PList vs)]) = Inr b"
  by (simp add: constraint_holds_def any_in_list_def)

lemma orchestrator_filter_rejects:
  assumes "allergy_exclusions g als \<noteq> []"
  shows "matches_filters (recipe_metadata r) (build_filter_dict g rs als hs) = Inr False"
proof -
  have als: "als \<noteq> []"
    using assms by (auto simp: allergy_exclusions_def)
  show ?thesis
  proof (cases "rs = []")
    case True
    then show ?thesis
      using assms als by (simp add: build_filter_dict_def Let_def recipe_metadata_no_ingredients)
  next
    case False
    have tags: "map_of (recipe_metadata r) ''dietary_tags'' = Some (PList (map PStr (dietary_tags r)))"
      by (simp add: recipe_metadata_def)
    obtain b where b: "constraint_holds (PList (map PStr (dietary_tags r)))
                          (Ops [(''$in'', PList (map PStr rs))]) = Inr b"
      using in_constraint_on_tags by blast
    show ?thesis
      using assms als False
      by (cases b) (simp_all add: build_filter_dict_def Let_def tags b recipe_metadata_no_ingredients)
  qed
qed

lemma apply_filters_from_none:
  "(\<And>md. md \<in> set mds \<Longrightarrow> matches_filters md flt = Inr False)
     \<Longrightarrow> apply_filters_from i mds flt = Inr []"
  by (induction mds arbitrary: i) auto

lemma store_search_rejects_all:
  assumes "\<And>e. e \<in> set entries \<Longrightarrow> matches_filters (en_metadata e) flt = Inr False"
      and "flt \<noteq> []"
  shows "store_search entries sims n flt = Inr []"
proof -
  have "apply_filters (map en_metadata entries) flt = Inr []"
    unfolding apply_filters_def using assms(1) by (intro apply_filters_from_none) auto
  then show ?thesis
    using assms(2) by (simp add: store_search_def Let_def py_take_def)
qed

lemma build_filter_dict_nonempty:
  "allergy_exclusions g als \<noteq> [] \<Longrightarrow> build_filter_dict g rs als hs \<noteq> []"
  by (auto simp: build_filter_dict_def Let_def allergy_exclusions_def)


text \<open>
  C10. An entry whose metadata lacks a field of the filter does not match, whatever the
  constraint on the field, \<open>$not_contains\<close> included.  The metadata
  \<open>get_recipe_metadata\<close> builds has no field \<open>ingredients\<close>.  So when the allergies of
  a search give a non-empty list of incompatible ingredients, the filter has the
  constraint \<open>ingredients: $not_contains\<close>, the vector store returns no hit for a store
  indexed with that metadata, and the merged candidates and the results are generated
  recipes only.
\<close>

theorem allergy_filter_excludes_static_recipes:
  "(map_of md key = None \<and> (key, c) \<in> set flt \<longrightarrow> matches_filters md flt \<noteq> Inr True)
   \<and> (map_of md key = None \<longrightarrow>
        matches_filters md [(key, Ops [(''$not_contains'', v)])] = Inr False)
   \<and> map_of (recipe_metadata r) ''ingredients'' = None
   \<and> ((\<forall>e \<in> set (pl_entries pl). \<exists>r. en_metadata e = recipe_metadata r)
        \<and> allergy_exclusions (pl_guidelines pl) als \<noteq> []
      \<longrightarrow> (''ingredients'', Ops [(''$not_contains'',
                PList (map PStr (allergy_exclusions (pl_guidelines pl) als)))])
            \<in> set (build_filter_dict (pl_guidelines pl) rs als hs)
          \<and> store_search (pl_entries pl) sims (n * 2)
              (build_filter_dict (pl_guidelines pl) rs als hs) = Inr []
          \<and> analyzed_results pl sims generated rs als hs n include_dynamic
              = Inr (if include_dynamic
                     then map (dynamic_entry (pl_guidelines pl) rs als hs) (py_take n generated)
                     else [])
          \<and> (\<exists>resp. search_recipes pl sims generated rs als hs n include_dynamic = Inr resp
                \<and> set (results resp)
                    \<subseteq> dynamic_entry (pl_guidelines pl) rs als hs ` set generated))"
proof (intro conjI impI)
  assume "map_of md key = None \<and> (key, c) \<in> set flt"
  then show "matches_filters md flt \<noteq> Inr True"
    using matches_missing_field by blast
next
  assume "map_of md key = None"
  then show "matches_filters md [(key, Ops [(''$not_contains'', v)])] = Inr False"
    by simp
next
  show "map_of (recipe_metadata r) ''ingredients'' = None"
    by (rule recipe_metadata_no_ingredients)
next
  assume a: "(\<forall>e \<in> set (pl_entries pl). \<exists>r. en_metadata e = recipe_metadata r)
        \<and> allergy_exclusions (pl_guidelines pl) als \<noteq> []"
  then have als: "als \<noteq> []"
    by (auto simp: allergy_exclusions_def)
  show "(''ingredients'', Ops [(''$not_contains'',
                PList (map PStr (allergy_exclusions (pl_guidelines pl) als)))])
            \<in> set (build_filter_dict (pl_guidelines pl) rs als hs)"
    using a als by (simp add: build_filter_dict_def Let_def)
  have rej: "matches_filters (en_metadata e) (build_filter_dict (pl_guidelines pl) rs als hs)
               = Inr False" if "e \<in> set (pl_entries pl)" for e
    using a that orchestrator_filter_rejects by metis
  show s: "store_search (pl_entries pl) sims (n * 2)
              (build_filter_dict (pl_guidelines pl) rs als hs) = Inr []"
    using rej a by (intro store_search_rejects_all build_filter_dict_nonempty) auto
  let ?dyn = "if include_dynamic
              then map (dynamic_entry (pl_guidelines pl) rs als hs) (py_take n generated)
              else []"
  show m: "analyzed_results pl sims generated rs als hs n include_dynamic = Inr ?dyn"
    by (simp add: analyzed_results_def s)
  have "set (py_take n (dedup_titles {} (sort_desc res_overall_score ?dyn))) \<subseteq> set ?dyn"
    using set_py_take [of n "dedup_titles {} (sort_desc res_overall_score ?dyn)"]
      dedup_subset [of "{}" "sort_desc res_overall_score ?dyn"]
      set_sort_desc [of res_overall_score ?dyn]
    by auto
  moreover have "set ?dyn \<subseteq> dynamic_entry (pl_guidelines pl) rs als hs ` set generated"
    using set_py_take [of n generated] by auto
  ultimately show "\<exists>resp. search_recipes pl sims generated rs als hs n include_dynamic = Inr resp
                \<and> set (results resp)
                    \<subseteq> dynamic_entry (pl_guidelines pl) rs als hs ` set generated"
    unfolding search_recipes_def m by (simp add: Let_def)
qed

lemma soy_exclusions: "allergy_exclusions soy_guidelines [''soy''] = [''soy'', ''tofu'']"
  by code_simp

theorem allergy_filter_excludes_static_recipes_witness:
  "analyzed_results rice_pipeline [1 / 2, 1 / 4] [snack] [] [''soy''] [] 1 True
     = Inr [dynamic_entry soy_guidelines [] [''soy''] [] snack]
   \<and> store_search (pl_entries rice_pipeline) [1 / 2, 1 / 4] (1 * 2)
        (build_filter_dict soy_guidelines [] [''soy''] []) = Inr []
   \<and> allergy_exclusions soy_guidelines [''soy''] = [''soy'', ''tofu'']"
proof -
  have g: "pl_guidelines rice_pipeline = soy_guidelines"
    by (simp add: rice_pipeline_def)
  have m: "\<forall>e \<in> set (pl_entries rice_pipeline). \<exists>r. en_metadata e = recipe_metadata r"
    by (auto simp: rice_pipeline_def)
  have x: "allergy_exclusions (pl_guidelines rice_pipeline) [''soy''] \<noteq> []"
    by (simp add: g soy_exclusions)
  show ?thesis
    using allergy_filter_excludes_static_recipes [where pl = rice_pipeline and als = "[''soy'']"
        and rs = "[]" and hs = "[]" and sims = "[1 / 2, 1 / 4]" and n = 1
        and generated = "[snack]" and include_dynamic = True] m x
    by (simp add: g soy_exclusions py_take_def)
qed

subsection \<open>The search score\<close>







subsection \<open>Deduplication and bounds\<close>



text \<open>
  C7. For \<open>n_results \<ge> 0\<close> a returned result list has at most \<open>n_results\<close> entries
  and at most \<open>total_found\<close> entries.
\<close>

theorem search_results_bounded:
  assumes "0 \<le> n"
      and "search_recipes pl sims generated rs als hs n incl = Inr resp"
  shows "int (length (results resp)) \<le> n \<and> length (results resp) \<le> total_found resp"
proof -
  obtain merged where
      "results resp = py_take n (dedup_titles {} (sort_desc res_overall_score merged))"
      "total_found resp = length (dedup_titles {} (sort_desc res_overall_score merged))"
    using search_recipes_Inr [OF assms(2)] by blast
  then show ?thesis
    using length_py_take [OF assms(1), of "dedup_titles {} (sort_desc res_overall_score merged)"]
      length_py_take_le [of n "dedup_titles {} (sort_desc res_overall_score merged)"]
    by simp
qed

theorem search_results_bounded_witness:
  "(0::int) \<le> 3
   \<and> search_recipes rice_pipeline [1 / 2, 1 / 4] [snack, rice_dynamic] [] [] [] 3 True
       = Inr rice_response
   \<and> int (length (results rice_response)) \<le> 3
   \<and> length (results rice_response) \<le> total_found rice_response
   \<and> length (results rice_response) = 3"
  using search_results_bounded [OF _ rice_search] rice_search
  by (simp add: rice_results)


end
